theory Spec2Isabelle
  imports Main "HOL-Library.Word"
begin

unbundle bit_operations_syntax

section \<open>EXTI line ownership and dispatch of \<open>stm32_gpio.cpp\<close>\<close>

text \<open>
  The model follows \<open>Firmware/Drivers/STM32/stm32_gpio.cpp\<close> statement by statement.
  Pointers are 32-bit addresses with \<open>nullptr = 0\<close>. Each operation is a function on the
  machine state \<open>mcu\<close>, which holds the table \<open>subscriptions[N_EXTI]\<close>, the registers the
  file writes, and a log of the callback invocations made by the dispatcher. An operation is
  one uninterrupted run of its statements, unless a theorem says otherwise
  (\<open>subscribe_prefix\<close> stops \<open>subscribe\<close> between two statements).
\<close>

type_synonym uint32_t = "32 word"
type_synonym uint16_t = "16 word"
type_synonym ptr = "32 word"

abbreviation nullptr :: ptr where "nullptr \<equiv> 0"

definition N_EXTI :: nat where
  "N_EXTI = 16"

record subscription_t =
  port :: ptr
  callback :: ptr
  ctx :: ptr

text \<open>
  The members \<open>port_\<close> and \<open>pin_mask_\<close> of \<open>Stm32Gpio\<close> (an Isabelle name cannot end
  with an underscore, hence \<open>this_port\<close> and \<open>this_pin_mask\<close>). \<open>this_pin_mask\<close> holds the
  value of \<open>(uint32_t)pin_mask_\<close>, the only form in which the file uses the member.
\<close>

record Stm32Gpio =
  this_port :: ptr
  this_pin_mask :: uint32_t

definition none :: Stm32Gpio where
  "none = \<lparr>this_port = nullptr, this_pin_mask = 0\<rparr>"

text \<open>
  Two things the file calls are declared elsewhere (\<open>stm32_gpio.hpp\<close> and the vendor HAL)
  and are parameters of the model: the member function \<open>get_pin_number()\<close> and the macro
  \<open>GPIO_GET_INDEX\<close>. Every theorem holds for each choice of them.
\<close>

record hpp =
  get_pin_number :: "Stm32Gpio \<Rightarrow> uint32_t"
  GPIO_GET_INDEX :: "ptr \<Rightarrow> uint32_t"

text \<open>
  \<open>calls\<close> is the log of the dispatcher: one entry (line, callback, context) for each
  execution of \<open>(*subscription.callback)(subscription.ctx)\<close>. What a callback does when it
  runs is outside this file and is not modelled.
\<close>

record mcu =
  subscriptions :: "subscription_t list"
  SYSCFG_CLK :: bool
  SYSCFG_EXTICR :: "uint32_t list"
  EXTI_RTSR :: uint32_t
  EXTI_FTSR :: uint32_t
  EXTI_EMR :: uint32_t
  EXTI_IMR :: uint32_t
  EXTI_PR :: uint32_t
  calls :: "(uint16_t \<times> ptr \<times> ptr) list"

text \<open>The table is statically allocated with every member \<open>nullptr\<close>; registers at reset.\<close>

definition startup :: mcu where
  "startup = \<lparr>subscriptions = replicate 16 \<lparr>port = nullptr, callback = nullptr, ctx = nullptr\<rparr>,
     SYSCFG_CLK = False, SYSCFG_EXTICR = [0, 0, 0, 0],
     EXTI_RTSR = 0, EXTI_FTSR = 0, EXTI_EMR = 0, EXTI_IMR = 0, EXTI_PR = 0, calls = []\<rparr>"

definition table_ok :: "mcu \<Rightarrow> bool" where
  "table_ok s = (length (subscriptions s) = N_EXTI)"

subsection \<open>HAL macros\<close>

text \<open>
  Modelled from the spec: the macros \<open>__HAL_GPIO_EXTI_GET_IT\<close> and
  \<open>__HAL_GPIO_EXTI_CLEAR_IT\<close> of the vendor HAL, which is not under src/. The pending flag
  is "a hardware-latched, write-to-clear bit": reading gives the pending register under the
  mask, and writing a mask clears exactly the flags it names.
\<close>

definition HAL_GPIO_EXTI_GET_IT :: "uint32_t \<Rightarrow> mcu \<Rightarrow> uint32_t" where
  "HAL_GPIO_EXTI_GET_IT line s = EXTI_PR s AND line"

definition HAL_GPIO_EXTI_CLEAR_IT :: "uint32_t \<Rightarrow> mcu \<Rightarrow> mcu" where
  "HAL_GPIO_EXTI_CLEAR_IT line s = s\<lparr>EXTI_PR := EXTI_PR s AND NOT line\<rparr>"

text \<open>
  Modelled from the spec: the macro \<open>__HAL_RCC_SYSCFG_CLK_ENABLE\<close> of the vendor HAL
  (clock enabling is an external collaborator): it switches the SYSCFG clock on.
\<close>

definition HAL_RCC_SYSCFG_CLK_ENABLE :: "mcu \<Rightarrow> mcu" where
  "HAL_RCC_SYSCFG_CLK_ENABLE s = s\<lparr>SYSCFG_CLK := True\<rparr>"

subsection \<open>\<open>Stm32Gpio::subscribe\<close>\<close>

definition slot_update :: "nat \<Rightarrow> (subscription_t \<Rightarrow> subscription_t) \<Rightarrow> mcu \<Rightarrow> mcu" where
  "slot_update n f s = s\<lparr>subscriptions := (subscriptions s)[n := f (subscriptions s ! n)]\<rparr>"

text \<open>
  \<open>__atomic_compare_exchange_n(&subscription.port, &no_port, port_, ...)\<close>: one indivisible
  step that stores \<open>desired\<close> when the member equals \<open>expected\<close> and reports whether it did.
\<close>

definition atomic_compare_exchange_port :: "nat \<Rightarrow> ptr \<Rightarrow> ptr \<Rightarrow> mcu \<Rightarrow> bool \<times> mcu" where
  "atomic_compare_exchange_port n expected desired s =
     (if port (subscriptions s ! n) = expected
      then (True, slot_update n (\<lambda>sub. sub\<lparr>port := desired\<rparr>) s)
      else (False, s))"

text \<open>Lines 133 to 136: the routing field of the line in \<open>SYSCFG->EXTICR\<close>.\<close>

definition write_EXTICR :: "uint32_t \<Rightarrow> uint32_t \<Rightarrow> mcu \<Rightarrow> mcu" where
  "write_EXTICR pin_number gpio_index s =
     (let i = unat (drop_bit 2 pin_number);
          temp = SYSCFG_EXTICR s ! i;
          temp = temp AND NOT (push_bit (unat (4 * (pin_number AND 0x03))) 0x0F);
          temp = temp OR push_bit (unat (4 * (pin_number AND 0x03))) gpio_index
      in s\<lparr>SYSCFG_EXTICR := (SYSCFG_EXTICR s)[i := temp]\<rparr>)"

definition write_RTSR :: "bool \<Rightarrow> uint32_t \<Rightarrow> mcu \<Rightarrow> mcu" where
  "write_RTSR rising_edge pin_mask s =
     (if rising_edge then s\<lparr>EXTI_RTSR := EXTI_RTSR s OR pin_mask\<rparr>
      else s\<lparr>EXTI_RTSR := EXTI_RTSR s AND NOT pin_mask\<rparr>)"

definition write_FTSR :: "bool \<Rightarrow> uint32_t \<Rightarrow> mcu \<Rightarrow> mcu" where
  "write_FTSR falling_edge pin_mask s =
     (if falling_edge then s\<lparr>EXTI_FTSR := EXTI_FTSR s OR pin_mask\<rparr>
      else s\<lparr>EXTI_FTSR := EXTI_FTSR s AND NOT pin_mask\<rparr>)"

definition clear_EMR :: "uint32_t \<Rightarrow> mcu \<Rightarrow> mcu" where
  "clear_EMR pin_mask s = s\<lparr>EXTI_EMR := EXTI_EMR s AND NOT pin_mask\<rparr>"

definition set_IMR :: "uint32_t \<Rightarrow> mcu \<Rightarrow> mcu" where
  "set_IMR pin_mask s = s\<lparr>EXTI_IMR := EXTI_IMR s OR pin_mask\<rparr>"

text \<open>
  The statements of \<open>subscribe\<close> after the successful claim (lines 131 to 157), in program
  order, one list element per statement.
\<close>

definition subscribe_statements ::
  "hpp \<Rightarrow> Stm32Gpio \<Rightarrow> bool \<Rightarrow> bool \<Rightarrow> ptr \<Rightarrow> ptr \<Rightarrow> (mcu \<Rightarrow> mcu) list" where
  "subscribe_statements h p rising_edge falling_edge cb c =
     (let pin_number = get_pin_number h p; n = unat pin_number in
      [HAL_RCC_SYSCFG_CLK_ENABLE,
       write_EXTICR pin_number (GPIO_GET_INDEX h (this_port p)),
       write_RTSR rising_edge (this_pin_mask p),
       write_FTSR falling_edge (this_pin_mask p),
       clear_EMR (this_pin_mask p),
       set_IMR (this_pin_mask p),
       HAL_GPIO_EXTI_CLEAR_IT (this_pin_mask p),
       slot_update n (\<lambda>sub. sub\<lparr>ctx := c\<rparr>),
       slot_update n (\<lambda>sub. sub\<lparr>callback := cb\<rparr>)])"

definition run_statements :: "(mcu \<Rightarrow> mcu) list \<Rightarrow> mcu \<Rightarrow> mcu" where
  "run_statements fs s = fold (\<lambda>f. f) fs s"

definition subscribe ::
  "hpp \<Rightarrow> Stm32Gpio \<Rightarrow> bool \<Rightarrow> bool \<Rightarrow> ptr \<Rightarrow> ptr \<Rightarrow> mcu \<Rightarrow> bool \<times> mcu" where
  "subscribe h p rising_edge falling_edge cb c s =
     (let pin_number = get_pin_number h p in
      if N_EXTI \<le> unat pin_number then (False, s)
      else case atomic_compare_exchange_port (unat pin_number) nullptr (this_port p) s of
             (False, _) \<Rightarrow> (False, s)
           | (True, s1) \<Rightarrow>
               (True, run_statements (subscribe_statements h p rising_edge falling_edge cb c) s1))"

text \<open>
  \<open>subscribe\<close> stopped after the claim and the first \<open>k\<close> statements that follow it: the
  state an interrupt finds when it arrives at that point of a successful call.
\<close>

definition subscribe_prefix ::
  "nat \<Rightarrow> hpp \<Rightarrow> Stm32Gpio \<Rightarrow> bool \<Rightarrow> bool \<Rightarrow> ptr \<Rightarrow> ptr \<Rightarrow> mcu \<Rightarrow> mcu" where
  "subscribe_prefix k h p rising_edge falling_edge cb c s =
     run_statements (take k (subscribe_statements h p rising_edge falling_edge cb c))
       (snd (atomic_compare_exchange_port (unat (get_pin_number h p)) nullptr (this_port p) s))"

subsection \<open>\<open>Stm32Gpio::unsubscribe\<close>\<close>

definition unsubscribe :: "hpp \<Rightarrow> Stm32Gpio \<Rightarrow> mcu \<Rightarrow> mcu" where
  "unsubscribe h p s =
     (let pin_number = get_pin_number h p; n = unat pin_number in
      if N_EXTI \<le> unat pin_number then s
      else if port (subscriptions s ! n) \<noteq> this_port p then s
      else
        let s = s\<lparr>EXTI_IMR := EXTI_IMR s OR this_pin_mask p\<rparr>;
            s = HAL_GPIO_EXTI_CLEAR_IT (this_pin_mask p) s;
            s = slot_update n (\<lambda>sub. sub\<lparr>callback := nullptr\<rparr>) s;
            s = slot_update n (\<lambda>sub. sub\<lparr>ctx := nullptr\<rparr>) s
        in slot_update n (\<lambda>sub. sub\<lparr>port := nullptr\<rparr>) s)"

subsection \<open>The dispatcher\<close>

text \<open>
  \<open>1 << exti_number\<close> is an \<open>int\<close> shift; for \<open>exti_number\<close> of 32 or more C++ leaves it
  undefined, and the model takes the empty mask there. The entry points only pass 0 to 15.
\<close>

definition maybe_handle :: "uint16_t \<Rightarrow> mcu \<Rightarrow> mcu" where
  "maybe_handle exti_number s =
     (if HAL_GPIO_EXTI_GET_IT (push_bit (unat exti_number) 1) s = 0 then s
      else
        let s = HAL_GPIO_EXTI_CLEAR_IT (push_bit (unat exti_number) 1) s in
        if N_EXTI \<le> unat exti_number then s
        else
          let subscription = subscriptions s ! unat exti_number in
          if callback subscription \<noteq> nullptr
          then s\<lparr>calls := calls s @ [(exti_number, callback subscription, ctx subscription)]\<rparr>
          else s)"

definition EXTI0_IRQHandler :: "mcu \<Rightarrow> mcu" where
  "EXTI0_IRQHandler s = maybe_handle 0 s"

definition EXTI1_IRQHandler :: "mcu \<Rightarrow> mcu" where
  "EXTI1_IRQHandler s = maybe_handle 1 s"

definition EXTI2_IRQHandler :: "mcu \<Rightarrow> mcu" where
  "EXTI2_IRQHandler s = maybe_handle 2 s"

definition EXTI3_IRQHandler :: "mcu \<Rightarrow> mcu" where
  "EXTI3_IRQHandler s = maybe_handle 3 s"

definition EXTI4_IRQHandler :: "mcu \<Rightarrow> mcu" where
  "EXTI4_IRQHandler s = maybe_handle 4 s"

definition EXTI9_5_IRQHandler :: "mcu \<Rightarrow> mcu" where
  "EXTI9_5_IRQHandler s =
     (let s = maybe_handle 5 s;
          s = maybe_handle 6 s;
          s = maybe_handle 7 s;
          s = maybe_handle 8 s
      in maybe_handle 9 s)"

definition EXTI15_10_IRQHandler :: "mcu \<Rightarrow> mcu" where
  "EXTI15_10_IRQHandler s =
     (let s = maybe_handle 10 s;
          s = maybe_handle 11 s;
          s = maybe_handle 12 s;
          s = maybe_handle 13 s;
          s = maybe_handle 14 s
      in maybe_handle 15 s)"

datatype IRQn_Type =
  EXTI0_IRQn | EXTI1_IRQn | EXTI2_IRQn | EXTI3_IRQn | EXTI4_IRQn
  | EXTI9_5_IRQn | EXTI15_10_IRQn | IRQn_0

definition get_irq_number :: "uint16_t \<Rightarrow> IRQn_Type" where
  "get_irq_number pin_number =
     (if pin_number = 0 then EXTI0_IRQn
      else if pin_number = 1 then EXTI1_IRQn
      else if pin_number = 2 then EXTI2_IRQn
      else if pin_number = 3 then EXTI3_IRQn
      else if pin_number = 4 then EXTI4_IRQn
      else if pin_number \<in> {5, 6, 7, 8, 9} then EXTI9_5_IRQn
      else if pin_number \<in> {10, 11, 12, 13, 14, 15} then EXTI15_10_IRQn
      else IRQn_0)"

text \<open>
  The vector table binds each interrupt number to the entry point of the same name;
  \<open>(IRQn_Type)0\<close> has no entry point in this file.
\<close>

fun IRQHandler :: "IRQn_Type \<Rightarrow> mcu \<Rightarrow> mcu" where
  "IRQHandler EXTI0_IRQn s = EXTI0_IRQHandler s"
| "IRQHandler EXTI1_IRQn s = EXTI1_IRQHandler s"
| "IRQHandler EXTI2_IRQn s = EXTI2_IRQHandler s"
| "IRQHandler EXTI3_IRQn s = EXTI3_IRQHandler s"
| "IRQHandler EXTI4_IRQn s = EXTI4_IRQHandler s"
| "IRQHandler EXTI9_5_IRQn s = EXTI9_5_IRQHandler s"
| "IRQHandler EXTI15_10_IRQn s = EXTI15_10_IRQHandler s"
| "IRQHandler IRQn_0 s = s"

subsection \<open>Histories of calls and hardware events\<close>

text \<open>
  A hardware event on a line latches the pending flag of the line. A history is a sequence
  of calls of the two member functions, hardware events, and interrupt entries.
\<close>

definition hardware_event :: "nat \<Rightarrow> mcu \<Rightarrow> mcu" where
  "hardware_event n s = s\<lparr>EXTI_PR := EXTI_PR s OR push_bit n 1\<rparr>"

datatype action =
  Subscribe Stm32Gpio bool bool ptr ptr
  | Unsubscribe Stm32Gpio
  | Event nat
  | Interrupt IRQn_Type

fun perform :: "hpp \<Rightarrow> action \<Rightarrow> mcu \<Rightarrow> mcu" where
  "perform h (Subscribe p r f cb c) s = snd (subscribe h p r f cb c s)"
| "perform h (Unsubscribe p) s = unsubscribe h p s"
| "perform h (Event n) s = hardware_event n s"
| "perform h (Interrupt irq) s = IRQHandler irq s"

definition history :: "hpp \<Rightarrow> action list \<Rightarrow> mcu \<Rightarrow> mcu" where
  "history h as s = fold (perform h) as s"

definition line_of :: "hpp \<Rightarrow> Stm32Gpio \<Rightarrow> nat" where
  "line_of h p = unat (get_pin_number h p)"

text \<open>The log entries made for one line.\<close>

definition calls_of_line :: "nat \<Rightarrow> mcu \<Rightarrow> (uint16_t \<times> ptr \<times> ptr) list" where
  "calls_of_line n s = filter (\<lambda>e. unat (fst e) = n) (calls s)"


text \<open>
  \<open>releases h n owner a\<close>: the action is an \<open>unsubscribe\<close> by a pin of line \<open>n\<close> and
  port \<open>owner\<close>. \<open>claims_line h n a\<close>: the action is a \<open>subscribe\<close> by a pin of line \<open>n\<close>.
\<close>

fun releases :: "hpp \<Rightarrow> nat \<Rightarrow> ptr \<Rightarrow> action \<Rightarrow> bool" where
  "releases h n owner (Unsubscribe q) = (line_of h q = n \<and> this_port q = owner)"
| "releases h n owner (Subscribe q r f cb c) = False"
| "releases h n owner (Event k) = False"
| "releases h n owner (Interrupt irq) = False"

fun claims_line :: "hpp \<Rightarrow> nat \<Rightarrow> action \<Rightarrow> bool" where
  "claims_line h n (Subscribe q r f cb c) = (line_of h q = n)"
| "claims_line h n (Unsubscribe q) = False"
| "claims_line h n (Event k) = False"
| "claims_line h n (Interrupt irq) = False"

text \<open>
  A free slot holds no callback. \<open>has_port a\<close>: if the action is a \<open>subscribe\<close>, its pin
  has a port.
\<close>

definition free_slots_clean :: "mcu \<Rightarrow> bool" where
  "free_slots_clean s =
     (\<forall>sub \<in> set (subscriptions s). port sub = nullptr \<longrightarrow> callback sub = nullptr)"

fun has_port :: "action \<Rightarrow> bool" where
  "has_port (Subscribe q r f cb c) = (this_port q \<noteq> nullptr)"
| "has_port (Unsubscribe q) = True"
| "has_port (Event k) = True"
| "has_port (Interrupt irq) = True"

text \<open>
  \<open>single_pin h p\<close>: the mask of the pin is the bit of its line number, as
  \<open>1 << exti_number\<close> is in the dispatcher. The spec has it so for a pin handle ("the EXTI
  line number equals the bit position"); the code does not check it, and
  \<open>Stm32Gpio::none\<close>, with the empty mask, is a handle without it.
\<close>

definition single_pin :: "hpp \<Rightarrow> Stm32Gpio \<Rightarrow> bool" where
  "single_pin h p = (this_pin_mask p = push_bit (line_of h p) 1)"

subsection \<open>Example inputs\<close>

text \<open>
  The inputs at which the theorems below are instantiated: a \<open>get_pin_number\<close> that gives
  the position of the single bit of the masks used here (and 16 for any other mask), a
  \<open>GPIO_GET_INDEX\<close> for two port addresses, and pins of ports A and B.
\<close>

definition example_hpp :: hpp where
  "example_hpp =
     \<lparr>get_pin_number = (\<lambda>p. if this_pin_mask p = 0x0008 then 3
                              else if this_pin_mask p = 0x0080 then 7 else 16),
      GPIO_GET_INDEX = (\<lambda>a. if a = 0x40020000 then 0 else 1)\<rparr>"

definition PA3 :: Stm32Gpio where
  "PA3 = \<lparr>this_port = 0x40020000, this_pin_mask = 0x0008\<rparr>"

definition PB3 :: Stm32Gpio where
  "PB3 = \<lparr>this_port = 0x40020400, this_pin_mask = 0x0008\<rparr>"

definition PA7 :: Stm32Gpio where
  "PA7 = \<lparr>this_port = 0x40020000, this_pin_mask = 0x0080\<rparr>"

definition line16 :: Stm32Gpio where
  "line16 = \<lparr>this_port = 0x40020000, this_pin_mask = 0x10000\<rparr>"

definition no_port_3 :: Stm32Gpio where
  "no_port_3 = \<lparr>this_port = nullptr, this_pin_mask = 0x0008\<rparr>"

text \<open>
  A second \<open>get_pin_number\<close>, the position of the highest bit of the mask, with 0 for the
  empty mask, on the masks used here; and a handle whose mask names pins 3 and 7.
\<close>

definition top_bit_hpp :: hpp where
  "top_bit_hpp =
     \<lparr>get_pin_number = (\<lambda>p. if this_pin_mask p = 0 then 0
                              else if this_pin_mask p = 0x0008 then 3
                              else if this_pin_mask p = 0x0080 then 7
                              else if this_pin_mask p = 0x0088 then 7 else 16),
      GPIO_GET_INDEX = (\<lambda>a. if a = 0x40020000 then 0 else 1)\<rparr>"

definition PA3_and_7 :: Stm32Gpio where
  "PA3_and_7 = \<lparr>this_port = 0x40020000, this_pin_mask = 0x0088\<rparr>"

text \<open>The state after \<open>PA3.subscribe(true, false, 0x08001000, 0x20000100)\<close> at start-up.\<close>

definition PA3_subscribed :: mcu where
  "PA3_subscribed = snd (subscribe example_hpp PA3 True False 0x08001000 0x20000100 startup)"

text \<open>Then \<open>PA7.subscribe(true, true, 0x08002000, 0x20000200)\<close>.\<close>

definition no_port_3_subscribed :: mcu where
  "no_port_3_subscribed =
     snd (subscribe example_hpp no_port_3 True False 0x08001000 0x20000100 startup)"

definition PA3_PA7_subscribed :: mcu where
  "PA3_PA7_subscribed =
     snd (subscribe example_hpp PA7 True True 0x08002000 0x20000200 PA3_subscribed)"

text \<open>
  A history after that: port A takes line 7, port B tries to release line 3, an edge
  arrives on line 3 and its interrupt is served.
\<close>

definition example_history :: "action list" where
  "example_history =
     [Subscribe PA7 True True 0x08002000 0x20000200, Unsubscribe PB3,
      Event 3, Interrupt EXTI3_IRQn]"

text \<open>Two edges on line 3, each followed by the interrupt of the line.\<close>

definition two_events_on_3 :: "action list" where
  "two_events_on_3 = [Event 3, Interrupt EXTI3_IRQn, Event 3, Interrupt EXTI3_IRQn]"

lemmas model_defs =
  subscribe_def unsubscribe_def maybe_handle_def atomic_compare_exchange_port_def
  subscribe_statements_def run_statements_def subscribe_prefix_def slot_update_def
  HAL_RCC_SYSCFG_CLK_ENABLE_def HAL_GPIO_EXTI_GET_IT_def HAL_GPIO_EXTI_CLEAR_IT_def
  write_EXTICR_def write_RTSR_def write_FTSR_def clear_EMR_def set_IMR_def
  N_EXTI_def table_ok_def line_of_def hardware_event_def Let_def

lemmas example_defs =
  startup_def example_hpp_def PA3_def PB3_def PA7_def line16_def no_port_3_def
  PA3_subscribed_def PA3_PA7_subscribed_def example_history_def two_events_on_3_def
  top_bit_hpp_def PA3_and_7_def none_def no_port_3_subscribed_def

section \<open>Failing calls of \<open>subscribe\<close>\<close>

text \<open>
  C4. When \<open>get_pin_number()\<close> is 16 or more, \<open>subscribe\<close> returns false and the whole
  state is the one before the call: every slot of the table (owner, callback, context) and
  every register.
\<close>

theorem subscribe_invalid_line:
  "N_EXTI \<le> line_of h p \<Longrightarrow> subscribe h p rising falling cb c s = (False, s)"
  by (simp add: subscribe_def line_of_def)

theorem subscribe_invalid_line_witness:
  "N_EXTI \<le> line_of example_hpp line16 \<and>
   subscribe example_hpp line16 True False 0x08001000 0x20000100 PA3_subscribed
     = (False, PA3_subscribed)"
  using subscribe_invalid_line [of example_hpp line16 True False "0x08001000" "0x20000100"
      PA3_subscribed]
  by (simp add: line_of_def N_EXTI_def example_hpp_def line16_def)

text \<open>
  C9. When the compare-exchange fails because the slot of the line has an owner,
  \<open>subscribe\<close> returns false and the whole state is the one before the call: the routing
  register, the trigger and mask registers, the pending flags and the slot.
\<close>

theorem subscribe_busy_unchanged:
  "line_of h p < N_EXTI \<Longrightarrow> port (subscriptions s ! line_of h p) \<noteq> nullptr \<Longrightarrow>
   subscribe h p rising falling cb c s = (False, s)"
  by (simp add: subscribe_def line_of_def atomic_compare_exchange_port_def)

theorem subscribe_busy_unchanged_witness:
  "line_of example_hpp PB3 < N_EXTI \<and>
   port (subscriptions PA3_subscribed ! line_of example_hpp PB3) \<noteq> nullptr \<and>
   subscribe example_hpp PB3 False True 0x08002000 0x20000200 PA3_subscribed
     = (False, PA3_subscribed)"
  using subscribe_busy_unchanged [of example_hpp PB3 PA3_subscribed False True
      "0x08002000" "0x20000200"]
  by (simp add: model_defs example_defs)

section \<open>The dispatcher\<close>

lemma maybe_handle_idle:
  "\<not> bit (EXTI_PR s) (unat k) \<Longrightarrow> maybe_handle k s = s"
  by (simp add: maybe_handle_def HAL_GPIO_EXTI_GET_IT_def and_exp_eq_0_iff_not_bit)

text \<open>
  C6. When \<open>maybe_handle\<close> is called for a line whose pending flag is not set, it returns
  the state it was given: no callback is logged, no pending flag is cleared, nothing is
  written.
\<close>

theorem maybe_handle_not_pending:
  "\<not> bit (EXTI_PR s) (unat exti_number) \<Longrightarrow> maybe_handle exti_number s = s"
  by (rule maybe_handle_idle)

theorem maybe_handle_not_pending_witness:
  "\<not> bit (EXTI_PR (hardware_event 7 PA3_subscribed)) (unat (3 :: uint16_t)) \<and>
   maybe_handle 3 (hardware_event 7 PA3_subscribed) = hardware_event 7 PA3_subscribed"
  using maybe_handle_not_pending [of "hardware_event 7 PA3_subscribed" 3]
  by (simp add: model_defs example_defs)

section \<open>\<open>unsubscribe\<close>\<close>

lemma slot_cleared:
  "sub\<lparr>callback := a, ctx := b, port := d\<rparr> = \<lparr>port = d, callback = a, ctx = b\<rparr>"
  by (cases sub) simp

lemma unsubscribe_skip:
  "N_EXTI \<le> line_of h p \<or> port (subscriptions s ! line_of h p) \<noteq> this_port p \<Longrightarrow>
   unsubscribe h p s = s"
  by (auto simp add: unsubscribe_def line_of_def Let_def)

lemma unsubscribe_release:
  assumes "line_of h p < N_EXTI" and "port (subscriptions s ! line_of h p) = this_port p"
  shows "unsubscribe h p s =
    s\<lparr>subscriptions := (subscriptions s)[line_of h p :=
          \<lparr>port = nullptr, callback = nullptr, ctx = nullptr\<rparr>],
      EXTI_IMR := EXTI_IMR s OR this_pin_mask p,
      EXTI_PR := EXTI_PR s AND NOT (this_pin_mask p)\<rparr>"
proof (cases "line_of h p < length (subscriptions s)")
  case True
  with assms show ?thesis
    by (simp add: unsubscribe_def line_of_def slot_update_def HAL_GPIO_EXTI_CLEAR_IT_def
        Let_def slot_cleared)
next
  case False
  with assms show ?thesis
    by (simp add: unsubscribe_def line_of_def slot_update_def HAL_GPIO_EXTI_CLEAR_IT_def
        Let_def list_update_beyond)
qed

lemma unsubscribe_twice: "unsubscribe h p (unsubscribe h p s) = unsubscribe h p s"
proof (cases "N_EXTI \<le> line_of h p \<or> port (subscriptions s ! line_of h p) \<noteq> this_port p")
  case True
  then show ?thesis by (simp add: unsubscribe_skip)
next
  case False
  then have valid: "line_of h p < N_EXTI"
    and own: "port (subscriptions s ! line_of h p) = this_port p" by auto
  let ?s = "unsubscribe h p s"
  show ?thesis
  proof (cases "port (subscriptions ?s ! line_of h p) = this_port p")
    case False
    then show ?thesis by (simp add: unsubscribe_skip)
  next
    case True
    show ?thesis
      by (subst unsubscribe_release [OF valid True])
        (simp add: unsubscribe_release [OF valid own])
  qed
qed

lemma unsubscribe_other_slot:
  "m \<noteq> line_of h p \<Longrightarrow> subscriptions (unsubscribe h p s) ! m = subscriptions s ! m"
  by (cases "N_EXTI \<le> line_of h p \<or> port (subscriptions s ! line_of h p) \<noteq> this_port p")
    (auto simp add: unsubscribe_skip unsubscribe_release)

text \<open>
  C5. \<open>unsubscribe\<close> returns nothing and is defined on every state. When the line number is
  invalid or the owner of the slot is not the port of the pin, it changes no slot and no
  register; two calls in a row leave the state that one call leaves; and the slot of any
  other line is the same after the call as before.
\<close>

theorem unsubscribe_noop_idempotent:
  "(N_EXTI \<le> line_of h p \<or> port (subscriptions s ! line_of h p) \<noteq> this_port p
      \<longrightarrow> unsubscribe h p s = s) \<and>
   unsubscribe h p (unsubscribe h p s) = unsubscribe h p s \<and>
   (\<forall>m. m \<noteq> line_of h p \<longrightarrow> subscriptions (unsubscribe h p s) ! m = subscriptions s ! m)"
  using unsubscribe_skip [of h p s] unsubscribe_twice [of h p s]
    unsubscribe_other_slot [of _ h p s]
  by blast

theorem unsubscribe_noop_idempotent_witness:
  "port (subscriptions PA3_subscribed ! line_of example_hpp PB3) \<noteq> this_port PB3 \<and>
   unsubscribe example_hpp PB3 PA3_subscribed = PA3_subscribed \<and>
   unsubscribe example_hpp PA3 (unsubscribe example_hpp PA3 PA3_subscribed)
     = unsubscribe example_hpp PA3 PA3_subscribed \<and>
   (7 :: nat) \<noteq> line_of example_hpp PB3 \<and>
   subscriptions (unsubscribe example_hpp PB3 PA3_subscribed) ! 7
     = subscriptions PA3_subscribed ! 7"
  using unsubscribe_noop_idempotent [of example_hpp PB3 PA3_subscribed]
    unsubscribe_noop_idempotent [of example_hpp PA3 PA3_subscribed]
  by (simp add: model_defs example_defs)

text \<open>
  C2. At a pin that holds its line, \<open>unsubscribe\<close> clears the pending flag of the line but
  executes \<open>EXTI->IMR |= pin_mask_\<close>: the bit of the line in the interrupt-mask register is
  set, not cleared, so the line still raises its interrupt. Here line 3 after
  \<open>PA3.subscribe\<close> and \<open>PA3.unsubscribe\<close>, also when the bit was clear before the call; a
  later event on the line enters the dispatcher, which finds the flag pending and clears
  it.
\<close>

theorem unsubscribe_leaves_line_unmasked:
  "bit (EXTI_IMR (unsubscribe example_hpp PA3 PA3_subscribed)) 3 \<and>
   bit (EXTI_IMR (unsubscribe example_hpp PA3 (PA3_subscribed\<lparr>EXTI_IMR := 0\<rparr>))) 3 \<and>
   \<not> bit (EXTI_PR (unsubscribe example_hpp PA3 (hardware_event 3 PA3_subscribed))) 3 \<and>
   IRQHandler (get_irq_number 3)
       (hardware_event 3 (unsubscribe example_hpp PA3 PA3_subscribed))
     \<noteq> hardware_event 3 (unsubscribe example_hpp PA3 PA3_subscribed)"
  by (simp add: model_defs example_defs get_irq_number_def EXTI3_IRQHandler_def)

section \<open>Shared entry points\<close>

lemma maybe_handle_pending_subset:
  "bit (EXTI_PR (maybe_handle k s)) j \<Longrightarrow> bit (EXTI_PR s) j"
  by (auto simp add: maybe_handle_def HAL_GPIO_EXTI_CLEAR_IT_def Let_def bit_and_iff
      split: if_splits)

lemma maybe_handle_idle_after:
  "\<not> bit (EXTI_PR s) (unat j) \<Longrightarrow> maybe_handle j (maybe_handle k s) = maybe_handle k s"
  using maybe_handle_pending_subset [of k s "unat j"]
  by (auto intro: maybe_handle_idle)

lemma maybe_handle_calls:
  "calls (maybe_handle k s) = calls s @
     (if bit (EXTI_PR s) (unat k) \<and> unat k < N_EXTI
         \<and> callback (subscriptions s ! unat k) \<noteq> nullptr
      then [(k, callback (subscriptions s ! unat k), ctx (subscriptions s ! unat k))]
      else [])"
  by (simp add: maybe_handle_def HAL_GPIO_EXTI_GET_IT_def HAL_GPIO_EXTI_CLEAR_IT_def Let_def
      and_exp_eq_0_iff_not_bit)

lemma fold_maybe_handle_idle_after:
  "\<forall>j \<in> set js. \<not> bit (EXTI_PR s) (unat j) \<Longrightarrow>
   fold maybe_handle js (maybe_handle k s) = maybe_handle k s"
  by (induction js) (simp_all add: maybe_handle_idle_after)

lemma fold_maybe_handle_single:
  "distinct js \<Longrightarrow> k \<in> set js \<Longrightarrow> bit (EXTI_PR s) (unat k) \<Longrightarrow>
   \<forall>j \<in> set js. j \<noteq> k \<longrightarrow> \<not> bit (EXTI_PR s) (unat j) \<Longrightarrow>
   fold maybe_handle js s = maybe_handle k s"
proof (induction js)
  case Nil
  then show ?case by simp
next
  case (Cons j js)
  show ?case
  proof (cases "j = k")
    case True
    with Cons.prems have "\<forall>i \<in> set js. \<not> bit (EXTI_PR s) (unat i)"
      by auto
    with True show ?thesis
      by (simp add: fold_maybe_handle_idle_after)
  next
    case False
    with Cons.prems have "maybe_handle j s = s"
      by (simp add: maybe_handle_idle)
    moreover from False Cons.prems have "fold maybe_handle js s = maybe_handle k s"
      by (intro Cons.IH) auto
    ultimately show ?thesis by simp
  qed
qed

lemma EXTI9_5_fold: "EXTI9_5_IRQHandler s = fold maybe_handle [5, 6, 7, 8, 9] s"
  by (simp add: EXTI9_5_IRQHandler_def)

lemma EXTI15_10_fold:
  "EXTI15_10_IRQHandler s = fold maybe_handle [10, 11, 12, 13, 14, 15] s"
  by (simp add: EXTI15_10_IRQHandler_def)

lemma EXTI9_5_single:
  assumes "k \<in> {5, 6, 7, 8, 9}" and "bit (EXTI_PR s) (unat k)"
    and "\<forall>j \<in> {5, 6, 7, 8, 9}. j \<noteq> k \<longrightarrow> \<not> bit (EXTI_PR s) (unat j)"
  shows "EXTI9_5_IRQHandler s = maybe_handle k s"
  unfolding EXTI9_5_fold
  by (rule fold_maybe_handle_single) (use assms in simp_all)

lemma EXTI15_10_single:
  assumes "k \<in> {10, 11, 12, 13, 14, 15}" and "bit (EXTI_PR s) (unat k)"
    and "\<forall>j \<in> {10, 11, 12, 13, 14, 15}. j \<noteq> k \<longrightarrow> \<not> bit (EXTI_PR s) (unat j)"
  shows "EXTI15_10_IRQHandler s = maybe_handle k s"
  unfolding EXTI15_10_fold
  by (rule fold_maybe_handle_single) (use assms in simp_all)

text \<open>
  C7. The entry point for lines 5 to 9 is \<open>maybe_handle\<close> run once for each of 5, 6, 7, 8,
  9 in this order, and the entry point for lines 10 to 15 once for each of 10 to 15. When
  exactly one line \<open>k\<close> of the group is pending, the entry point does what
  \<open>maybe_handle k\<close> alone does, and the only callback it invokes is the one bound to line
  \<open>k\<close>, with the context of that slot (none when the slot has no callback).
\<close>

theorem shared_entry_points_poll_group:
  "EXTI9_5_IRQHandler s = fold maybe_handle [5, 6, 7, 8, 9] s \<and>
   EXTI15_10_IRQHandler s = fold maybe_handle [10, 11, 12, 13, 14, 15] s \<and>
   (\<forall>k \<in> {5, 6, 7, 8, 9}.
      bit (EXTI_PR s) (unat k) \<and>
      (\<forall>j \<in> {5, 6, 7, 8, 9}. j \<noteq> k \<longrightarrow> \<not> bit (EXTI_PR s) (unat j)) \<longrightarrow>
      EXTI9_5_IRQHandler s = maybe_handle k s \<and>
      calls (EXTI9_5_IRQHandler s) = calls s @
        (if callback (subscriptions s ! unat k) \<noteq> nullptr
         then [(k, callback (subscriptions s ! unat k), ctx (subscriptions s ! unat k))]
         else [])) \<and>
   (\<forall>k \<in> {10, 11, 12, 13, 14, 15}.
      bit (EXTI_PR s) (unat k) \<and>
      (\<forall>j \<in> {10, 11, 12, 13, 14, 15}. j \<noteq> k \<longrightarrow> \<not> bit (EXTI_PR s) (unat j)) \<longrightarrow>
      EXTI15_10_IRQHandler s = maybe_handle k s \<and>
      calls (EXTI15_10_IRQHandler s) = calls s @
        (if callback (subscriptions s ! unat k) \<noteq> nullptr
         then [(k, callback (subscriptions s ! unat k), ctx (subscriptions s ! unat k))]
         else []))"
proof (intro conjI ballI impI)
  show "EXTI9_5_IRQHandler s = fold maybe_handle [5, 6, 7, 8, 9] s"
    by (rule EXTI9_5_fold)
  show "EXTI15_10_IRQHandler s = fold maybe_handle [10, 11, 12, 13, 14, 15] s"
    by (rule EXTI15_10_fold)
next
  fix k :: uint16_t
  assume k: "k \<in> {5, 6, 7, 8, 9}"
    and only: "bit (EXTI_PR s) (unat k) \<and>
      (\<forall>j \<in> {5, 6, 7, 8, 9}. j \<noteq> k \<longrightarrow> \<not> bit (EXTI_PR s) (unat j))"
  then show single: "EXTI9_5_IRQHandler s = maybe_handle k s"
    by (simp add: EXTI9_5_single)
  from k have "unat k < N_EXTI"
    by (auto simp add: N_EXTI_def)
  with only show "calls (EXTI9_5_IRQHandler s) = calls s @
        (if callback (subscriptions s ! unat k) \<noteq> nullptr
         then [(k, callback (subscriptions s ! unat k), ctx (subscriptions s ! unat k))]
         else [])"
    by (simp add: single maybe_handle_calls)
next
  fix k :: uint16_t
  assume k: "k \<in> {10, 11, 12, 13, 14, 15}"
    and only: "bit (EXTI_PR s) (unat k) \<and>
      (\<forall>j \<in> {10, 11, 12, 13, 14, 15}. j \<noteq> k \<longrightarrow> \<not> bit (EXTI_PR s) (unat j))"
  then show single: "EXTI15_10_IRQHandler s = maybe_handle k s"
    by (simp add: EXTI15_10_single)
  from k have "unat k < N_EXTI"
    by (auto simp add: N_EXTI_def)
  with only show "calls (EXTI15_10_IRQHandler s) = calls s @
        (if callback (subscriptions s ! unat k) \<noteq> nullptr
         then [(k, callback (subscriptions s ! unat k), ctx (subscriptions s ! unat k))]
         else [])"
    by (simp add: single maybe_handle_calls)
qed

theorem shared_entry_points_poll_group_witness:
  "bit (EXTI_PR (hardware_event 7 PA3_PA7_subscribed)) (unat (7 :: uint16_t)) \<and>
   \<not> bit (EXTI_PR (hardware_event 7 PA3_PA7_subscribed)) (unat (5 :: uint16_t)) \<and>
   \<not> bit (EXTI_PR (hardware_event 7 PA3_PA7_subscribed)) (unat (6 :: uint16_t)) \<and>
   \<not> bit (EXTI_PR (hardware_event 7 PA3_PA7_subscribed)) (unat (8 :: uint16_t)) \<and>
   \<not> bit (EXTI_PR (hardware_event 7 PA3_PA7_subscribed)) (unat (9 :: uint16_t)) \<and>
   EXTI9_5_IRQHandler (hardware_event 7 PA3_PA7_subscribed)
     = maybe_handle 7 (hardware_event 7 PA3_PA7_subscribed) \<and>
   calls (EXTI9_5_IRQHandler (hardware_event 7 PA3_PA7_subscribed))
     = [(7, 0x08002000, 0x20000200)]"
proof -
  have pending: "EXTI_PR (hardware_event 7 PA3_PA7_subscribed) = 0x80"
    by (simp add: model_defs example_defs)
  have slot: "subscriptions (hardware_event 7 PA3_PA7_subscribed) ! 7
      = \<lparr>port = 0x40020000, callback = 0x08002000, ctx = 0x20000200\<rparr>"
    by (simp add: model_defs example_defs)
  have log: "calls (hardware_event 7 PA3_PA7_subscribed) = []"
    by (simp add: model_defs example_defs)
  show ?thesis
    using shared_entry_points_poll_group [of "hardware_event 7 PA3_PA7_subscribed",
        THEN conjunct2, THEN conjunct2, THEN conjunct1]
    by (auto simp add: pending slot log)
qed

section \<open>Successful calls of \<open>subscribe\<close>\<close>

lemma slot_bound:
  "sub\<lparr>port := d, ctx := b, callback := a\<rparr> = \<lparr>port = d, callback = a, ctx = b\<rparr>"
  by (cases sub) simp

lemma subscribe_succeeds_iff:
  "fst (subscribe h p rising falling cb c s) \<longleftrightarrow>
     line_of h p < N_EXTI \<and> port (subscriptions s ! line_of h p) = nullptr"
  by (auto simp add: subscribe_def line_of_def atomic_compare_exchange_port_def Let_def)

lemma subscribe_fails:
  "\<not> (line_of h p < N_EXTI \<and> port (subscriptions s ! line_of h p) = nullptr) \<Longrightarrow>
   subscribe h p rising falling cb c s = (False, s)"
  by (auto simp add: subscribe_def line_of_def atomic_compare_exchange_port_def Let_def)

lemma subscribe_success:
  assumes "line_of h p < N_EXTI" and "port (subscriptions s ! line_of h p) = nullptr"
  shows "subscribe h p rising falling cb c s =
    (True, s\<lparr>subscriptions := (subscriptions s)[line_of h p :=
              \<lparr>port = this_port p, callback = cb, ctx = c\<rparr>],
        SYSCFG_CLK := True,
        SYSCFG_EXTICR := SYSCFG_EXTICR
          (write_EXTICR (get_pin_number h p) (GPIO_GET_INDEX h (this_port p)) s),
        EXTI_RTSR := (if rising then EXTI_RTSR s OR this_pin_mask p
                      else EXTI_RTSR s AND NOT (this_pin_mask p)),
        EXTI_FTSR := (if falling then EXTI_FTSR s OR this_pin_mask p
                      else EXTI_FTSR s AND NOT (this_pin_mask p)),
        EXTI_EMR := EXTI_EMR s AND NOT (this_pin_mask p),
        EXTI_IMR := EXTI_IMR s OR this_pin_mask p,
        EXTI_PR := EXTI_PR s AND NOT (this_pin_mask p)\<rparr>)"
proof (cases "line_of h p < length (subscriptions s)")
  case True
  with assms show ?thesis
    by (simp add: model_defs slot_bound)
next
  case False
  with assms show ?thesis
    by (simp add: model_defs list_update_beyond)
qed

lemma subscribe_writes_mask_bits:
  assumes "subscribe h p rising falling cb c s = (True, s')"
  shows "bit (EXTI_RTSR s') i = (if bit (this_pin_mask p) i then rising else bit (EXTI_RTSR s) i)"
    and "bit (EXTI_FTSR s') i = (if bit (this_pin_mask p) i then falling else bit (EXTI_FTSR s) i)"
proof -
  from assms have "fst (subscribe h p rising falling cb c s)"
    by simp
  then have valid: "line_of h p < N_EXTI"
    and free: "port (subscriptions s ! line_of h p) = nullptr"
    by (simp_all add: subscribe_succeeds_iff)
  from assms have rtsr: "EXTI_RTSR s' =
      (if rising then EXTI_RTSR s OR this_pin_mask p
       else EXTI_RTSR s AND NOT (this_pin_mask p))"
    and ftsr: "EXTI_FTSR s' =
      (if falling then EXTI_FTSR s OR this_pin_mask p
       else EXTI_FTSR s AND NOT (this_pin_mask p))"
    by (auto simp add: subscribe_success [OF valid free])
  show "bit (EXTI_RTSR s') i = (if bit (this_pin_mask p) i then rising else bit (EXTI_RTSR s) i)"
    by (auto simp add: rtsr bit_simps dest: bit_imp_le_length)
  show "bit (EXTI_FTSR s') i = (if bit (this_pin_mask p) i then falling else bit (EXTI_FTSR s) i)"
    by (auto simp add: ftsr bit_simps dest: bit_imp_le_length)
qed

text \<open>
  C8, as the code has it. \<open>subscribe\<close> writes the bits of \<open>pin_mask_\<close> in both trigger
  registers, whatever the line number is. After a successful \<open>subscribe\<close> by a pin whose
  mask is the bit of its line (\<open>single_pin\<close>), the bit of the line in the rising-trigger
  register equals the flag \<open>rising\<close> and its bit in the falling-trigger register equals the
  flag \<open>falling\<close>, whatever the other flag is, and every other bit of both registers is as
  before the call.
\<close>

theorem subscribe_edge_triggers:
  assumes "subscribe h p rising falling cb c s = (True, s')"
    and "single_pin h p"
  shows "bit (EXTI_RTSR s') (line_of h p) = rising \<and>
         bit (EXTI_FTSR s') (line_of h p) = falling \<and>
         (\<forall>i. i \<noteq> line_of h p \<longrightarrow>
            bit (EXTI_RTSR s') i = bit (EXTI_RTSR s) i \<and>
            bit (EXTI_FTSR s') i = bit (EXTI_FTSR s) i)"
proof -
  from assms(1) have "fst (subscribe h p rising falling cb c s)"
    by simp
  then have valid: "line_of h p < N_EXTI"
    and free: "port (subscriptions s ! line_of h p) = nullptr"
    by (simp_all add: subscribe_succeeds_iff)
  from valid have in_word: "line_of h p < 32"
    by (simp add: N_EXTI_def)
  from assms(1) have rtsr: "EXTI_RTSR s' =
      (if rising then EXTI_RTSR s OR this_pin_mask p
       else EXTI_RTSR s AND NOT (this_pin_mask p))"
    and ftsr: "EXTI_FTSR s' =
      (if falling then EXTI_FTSR s OR this_pin_mask p
       else EXTI_FTSR s AND NOT (this_pin_mask p))"
    by (auto simp add: subscribe_success [OF valid free])
  from assms(2) have mask: "this_pin_mask p = push_bit (line_of h p) 1"
    by (simp add: single_pin_def)
  from in_word show ?thesis
    by (auto simp add: rtsr ftsr mask bit_simps dest: bit_imp_le_length)
qed

theorem subscribe_edge_triggers_witness:
  "subscribe example_hpp PA7 True False 0x08002000 0x20000200 PA3_subscribed
     = (True, snd (subscribe example_hpp PA7 True False 0x08002000 0x20000200 PA3_subscribed)) \<and>
   single_pin example_hpp PA7 \<and>
   bit (EXTI_RTSR (snd (subscribe example_hpp PA7 True False 0x08002000 0x20000200
      PA3_subscribed))) 7 \<and>
   \<not> bit (EXTI_FTSR (snd (subscribe example_hpp PA7 True False 0x08002000 0x20000200
      PA3_subscribed))) 7 \<and>
   bit (EXTI_RTSR (snd (subscribe example_hpp PA7 True False 0x08002000 0x20000200
      PA3_subscribed))) 3"
proof -
  have ok: "subscribe example_hpp PA7 True False 0x08002000 0x20000200 PA3_subscribed
     = (True, snd (subscribe example_hpp PA7 True False 0x08002000 0x20000200 PA3_subscribed))"
    by (simp add: model_defs example_defs)
  have one_hot: "single_pin example_hpp PA7"
    by (simp add: single_pin_def model_defs example_defs)
  have line: "line_of example_hpp PA7 = 7"
    by (simp add: model_defs example_defs)
  have before: "EXTI_RTSR PA3_subscribed = 8"
    by (simp add: model_defs example_defs)
  show ?thesis
    using subscribe_edge_triggers [OF ok one_hot] ok one_hot
    by (simp add: line before)
qed

text \<open>
  C8 as stated fails for a pin whose mask is not the bit of its line. The handle with
  mask \<open>0x0088\<close> subscribes on line 7 with both flags false, with success, and clears bit 3
  of the rising-trigger register, which the subscription of pin 3 had set: the trigger of
  another line is modified. \<open>Stm32Gpio::none\<close> (mask 0) subscribes on line 0 with both
  flags true, with success, and neither trigger bit of line 0 is set.
\<close>

theorem subscribe_edge_triggers_counterexample:
  "fst (subscribe top_bit_hpp PA3_and_7 False False 0x08002000 0x20000200 PA3_subscribed) \<and>
   line_of top_bit_hpp PA3_and_7 = 7 \<and>
   bit (EXTI_RTSR PA3_subscribed) 3 \<and>
   \<not> bit (EXTI_RTSR (snd (subscribe top_bit_hpp PA3_and_7 False False 0x08002000 0x20000200
       PA3_subscribed))) 3 \<and>
   fst (subscribe top_bit_hpp none True True 0x08001000 0x20000100 startup) \<and>
   line_of top_bit_hpp none = 0 \<and>
   \<not> bit (EXTI_RTSR (snd (subscribe top_bit_hpp none True True 0x08001000 0x20000100
       startup))) 0 \<and>
   \<not> bit (EXTI_FTSR (snd (subscribe top_bit_hpp none True True 0x08001000 0x20000100
       startup))) 0"
  by (simp add: model_defs example_defs)

section \<open>Ownership along a history\<close>

lemma maybe_handle_subscriptions: "subscriptions (maybe_handle k s) = subscriptions s"
  by (simp add: maybe_handle_def HAL_GPIO_EXTI_CLEAR_IT_def Let_def)

lemma fold_maybe_handle_subscriptions:
  "subscriptions (fold maybe_handle js s) = subscriptions s"
  by (induction js arbitrary: s) (simp_all add: maybe_handle_subscriptions)

lemma IRQHandler_fold:
  "IRQHandler irq s = fold maybe_handle
     (case irq of EXTI0_IRQn \<Rightarrow> [0] | EXTI1_IRQn \<Rightarrow> [1] | EXTI2_IRQn \<Rightarrow> [2]
      | EXTI3_IRQn \<Rightarrow> [3] | EXTI4_IRQn \<Rightarrow> [4] | EXTI9_5_IRQn \<Rightarrow> [5, 6, 7, 8, 9]
      | EXTI15_10_IRQn \<Rightarrow> [10, 11, 12, 13, 14, 15] | IRQn_0 \<Rightarrow> []) s"
  by (cases irq)
    (simp_all add: EXTI0_IRQHandler_def EXTI1_IRQHandler_def EXTI2_IRQHandler_def
      EXTI3_IRQHandler_def EXTI4_IRQHandler_def EXTI9_5_fold EXTI15_10_fold)

lemma IRQHandler_subscriptions: "subscriptions (IRQHandler irq s) = subscriptions s"
  by (simp only: IRQHandler_fold fold_maybe_handle_subscriptions)

lemma subscribe_table:
  "subscriptions (snd (subscribe h p rising falling cb c s)) =
     (if line_of h p < N_EXTI \<and> port (subscriptions s ! line_of h p) = nullptr
      then (subscriptions s)[line_of h p := \<lparr>port = this_port p, callback = cb, ctx = c\<rparr>]
      else subscriptions s)"
  by (simp add: subscribe_success subscribe_fails)

lemma unsubscribe_table:
  "subscriptions (unsubscribe h p s) =
     (if line_of h p < N_EXTI \<and> port (subscriptions s ! line_of h p) = this_port p
      then (subscriptions s)[line_of h p := \<lparr>port = nullptr, callback = nullptr, ctx = nullptr\<rparr>]
      else subscriptions s)"
  using unsubscribe_skip [of h p s]
  by (auto simp add: unsubscribe_release)

lemma perform_table_ok: "table_ok s \<Longrightarrow> table_ok (perform h a s)"
  by (cases a)
    (simp_all add: table_ok_def subscribe_table unsubscribe_table hardware_event_def
      IRQHandler_subscriptions)

lemma perform_keeps_owner:
  assumes "port (subscriptions s ! n) = owner" and "owner \<noteq> nullptr"
    and "\<not> releases h n owner a"
  shows "port (subscriptions (perform h a s) ! n) = owner"
proof (cases a)
  case (Subscribe q r f cb c)
  with assms show ?thesis
    by (cases "line_of h q = n") (auto simp add: subscribe_table)
next
  case (Unsubscribe q)
  with assms show ?thesis
    by (cases "line_of h q = n") (auto simp add: unsubscribe_table)
next
  case (Event k)
  with assms show ?thesis
    by (simp add: hardware_event_def)
next
  case (Interrupt irq)
  with assms show ?thesis
    by (simp add: IRQHandler_subscriptions)
qed

lemma history_keeps_owner:
  "port (subscriptions s ! n) = owner \<Longrightarrow> owner \<noteq> nullptr \<Longrightarrow>
   \<forall>a \<in> set as. \<not> releases h n owner a \<Longrightarrow>
   port (subscriptions (history h as s) ! n) = owner"
  unfolding history_def
  by (induction as arbitrary: s) (simp_all add: perform_keeps_owner)

text \<open>
  C1, as the code has it. Let a pin with a port (\<open>port_\<close> not null) subscribe
  successfully. Then after any history of further calls, events and interrupts in which no
  pin of that port and line calls \<open>unsubscribe\<close>, the owner of the slot is still that port,
  and every \<open>subscribe\<close> by a pin of the same line, of any port, returns false and leaves
  the state as it is.
\<close>

theorem subscribe_exclusive:
  assumes "table_ok s0"
    and "subscribe h p1 rising1 falling1 cb1 c1 s0 = (True, s1)"
    and "this_port p1 \<noteq> nullptr"
    and "\<forall>a \<in> set as. \<not> releases h (line_of h p1) (this_port p1) a"
    and "line_of h p2 = line_of h p1"
  shows "port (subscriptions (history h as s1) ! line_of h p1) = this_port p1 \<and>
         subscribe h p2 rising2 falling2 cb2 c2 (history h as s1) = (False, history h as s1)"
proof -
  from assms(2) have "fst (subscribe h p1 rising1 falling1 cb1 c1 s0)"
    by simp
  then have valid: "line_of h p1 < N_EXTI"
    and free: "port (subscriptions s0 ! line_of h p1) = nullptr"
    by (simp_all add: subscribe_succeeds_iff)
  from assms(1) valid have "line_of h p1 < length (subscriptions s0)"
    by (simp add: table_ok_def)
  with assms(2) have "port (subscriptions s1 ! line_of h p1) = this_port p1"
    by (auto simp add: subscribe_success [OF valid free])
  with assms(3,4)
  have owner: "port (subscriptions (history h as s1) ! line_of h p1) = this_port p1"
    by (simp add: history_keeps_owner)
  with assms(3,5) have "subscribe h p2 rising2 falling2 cb2 c2 (history h as s1)
      = (False, history h as s1)"
    by (simp add: subscribe_fails)
  with owner show ?thesis by simp
qed

theorem subscribe_exclusive_witness:
  "table_ok startup \<and>
   subscribe example_hpp PA3 True False 0x08001000 0x20000100 startup = (True, PA3_subscribed) \<and>
   this_port PA3 \<noteq> nullptr \<and>
   \<not> releases example_hpp (line_of example_hpp PA3) (this_port PA3)
       (Subscribe PA7 True True 0x08002000 0x20000200) \<and>
   \<not> releases example_hpp (line_of example_hpp PA3) (this_port PA3) (Unsubscribe PB3) \<and>
   \<not> releases example_hpp (line_of example_hpp PA3) (this_port PA3) (Event 3) \<and>
   \<not> releases example_hpp (line_of example_hpp PA3) (this_port PA3) (Interrupt EXTI3_IRQn) \<and>
   line_of example_hpp PB3 = line_of example_hpp PA3 \<and>
   port (subscriptions (history example_hpp example_history PA3_subscribed)
     ! line_of example_hpp PA3) = this_port PA3 \<and>
   subscribe example_hpp PB3 False True 0x08003000 0x20000300
       (history example_hpp example_history PA3_subscribed)
     = (False, history example_hpp example_history PA3_subscribed)"
proof -
  have ok: "table_ok startup"
    by (simp add: table_ok_def N_EXTI_def startup_def)
  have first: "subscribe example_hpp PA3 True False 0x08001000 0x20000100 startup
      = (True, PA3_subscribed)"
    by (simp add: model_defs example_defs)
  have owner: "this_port PA3 \<noteq> nullptr"
    by (simp add: PA3_def)
  have kept: "\<forall>a \<in> set example_history.
      \<not> releases example_hpp (line_of example_hpp PA3) (this_port PA3) a"
    by (simp add: example_history_def line_of_def example_hpp_def PA3_def PB3_def PA7_def)
  have same: "line_of example_hpp PB3 = line_of example_hpp PA3"
    by (simp add: line_of_def example_hpp_def PA3_def PB3_def)
  from kept have each:
    "\<not> releases example_hpp (line_of example_hpp PA3) (this_port PA3)
       (Subscribe PA7 True True 0x08002000 0x20000200)"
    "\<not> releases example_hpp (line_of example_hpp PA3) (this_port PA3) (Unsubscribe PB3)"
    "\<not> releases example_hpp (line_of example_hpp PA3) (this_port PA3) (Event 3)"
    "\<not> releases example_hpp (line_of example_hpp PA3) (this_port PA3) (Interrupt EXTI3_IRQn)"
    unfolding example_history_def by simp_all
  show ?thesis
    using subscribe_exclusive [OF ok first owner kept same, of False True "0x08003000"
        "0x20000300"] ok first owner each same
    by blast
qed

text \<open>
  C1 as stated fails for a pin without a port. \<open>nullptr\<close> is also the mark of a free slot,
  so the compare-exchange of such a pin succeeds and leaves the slot free: the pin
  \<open>{nullptr, 0x0008}\<close> subscribes on line 3 with success, and then so does pin 3 of port A,
  which becomes the owner and replaces the callback.
\<close>

theorem subscribe_exclusive_counterexample:
  "fst (subscribe example_hpp no_port_3 True False 0x08001000 0x20000100 startup) \<and>
   line_of example_hpp PA3 = line_of example_hpp no_port_3 \<and>
   fst (subscribe example_hpp PA3 False True 0x08002000 0x20000200
          (snd (subscribe example_hpp no_port_3 True False 0x08001000 0x20000100 startup))) \<and>
   subscriptions (snd (subscribe example_hpp no_port_3 True False 0x08001000 0x20000100
          startup)) ! 3
     = \<lparr>port = nullptr, callback = 0x08001000, ctx = 0x20000100\<rparr> \<and>
   subscriptions (snd (subscribe example_hpp PA3 False True 0x08002000 0x20000200
          (snd (subscribe example_hpp no_port_3 True False 0x08001000 0x20000100 startup)))) ! 3
     = \<lparr>port = 0x40020000, callback = 0x08002000, ctx = 0x20000200\<rparr>"
  by (simp add: model_defs example_defs)

section \<open>No callback after \<open>unsubscribe\<close>\<close>

lemma calls_of_line_maybe_handle:
  "callback (subscriptions s ! n) = nullptr \<Longrightarrow>
   calls_of_line n (maybe_handle k s) = calls_of_line n s"
  by (auto simp add: calls_of_line_def maybe_handle_calls)

lemma calls_of_line_fold_maybe_handle:
  "callback (subscriptions s ! n) = nullptr \<Longrightarrow>
   calls_of_line n (fold maybe_handle js s) = calls_of_line n s"
  by (induction js arbitrary: s)
    (simp_all add: calls_of_line_maybe_handle maybe_handle_subscriptions)

lemma calls_of_line_IRQHandler:
  "callback (subscriptions s ! n) = nullptr \<Longrightarrow>
   calls_of_line n (IRQHandler irq s) = calls_of_line n s"
  by (simp only: IRQHandler_fold calls_of_line_fold_maybe_handle)

lemma subscribe_calls: "calls (snd (subscribe h p rising falling cb c s)) = calls s"
  by (cases "line_of h p < N_EXTI \<and> port (subscriptions s ! line_of h p) = nullptr")
    (simp_all add: subscribe_success subscribe_fails)

lemma unsubscribe_calls: "calls (unsubscribe h p s) = calls s"
  by (cases "line_of h p < N_EXTI \<and> port (subscriptions s ! line_of h p) = this_port p")
    (auto simp add: unsubscribe_release unsubscribe_skip)

lemma perform_keeps_unbound:
  assumes "table_ok s" and "n < N_EXTI" and "callback (subscriptions s ! n) = nullptr"
    and "\<not> claims_line h n a"
  shows "callback (subscriptions (perform h a s) ! n) = nullptr \<and>
         calls_of_line n (perform h a s) = calls_of_line n s"
proof (cases a)
  case (Subscribe q r f cb c)
  with assms show ?thesis
    by (simp add: subscribe_table calls_of_line_def subscribe_calls)
next
  case (Unsubscribe q)
  with assms show ?thesis
    by (cases "line_of h q = n")
      (auto simp add: unsubscribe_table calls_of_line_def unsubscribe_calls table_ok_def)
next
  case (Event k)
  with assms show ?thesis
    by (simp add: hardware_event_def calls_of_line_def)
next
  case (Interrupt irq)
  with assms show ?thesis
    by (simp add: IRQHandler_subscriptions calls_of_line_IRQHandler)
qed

lemma history_keeps_unbound:
  "table_ok s \<Longrightarrow> n < N_EXTI \<Longrightarrow> callback (subscriptions s ! n) = nullptr \<Longrightarrow>
   \<forall>a \<in> set as. \<not> claims_line h n a \<Longrightarrow>
   calls_of_line n (history h as s) = calls_of_line n s"
  unfolding history_def
  by (induction as arbitrary: s) (simp_all add: perform_keeps_unbound perform_table_ok)

text \<open>
  C3. Let a pin hold its line: the owner of the slot is the port of the pin, as its
  \<open>subscribe\<close> left it. After \<open>unsubscribe\<close> by the pin, in any history of hardware events,
  interrupts and calls that contains no new \<open>subscribe\<close> on the line, the dispatcher
  invokes no callback for the line: the log of the line stays as it was before the
  \<open>unsubscribe\<close>, however many events are delivered.
\<close>

theorem no_callback_after_unsubscribe:
  assumes "table_ok s" and "line_of h p < N_EXTI"
    and "port (subscriptions s ! line_of h p) = this_port p"
    and "\<forall>a \<in> set as. \<not> claims_line h (line_of h p) a"
  shows "calls_of_line (line_of h p) (history h as (unsubscribe h p s))
           = calls_of_line (line_of h p) s"
proof -
  let ?s = "unsubscribe h p s"
  from assms(1) have ok: "table_ok ?s"
    by (simp add: table_ok_def unsubscribe_table)
  from assms(1,2) have "line_of h p < length (subscriptions s)"
    by (simp add: table_ok_def)
  with assms(2,3) have unbound: "callback (subscriptions ?s ! line_of h p) = nullptr"
    by (simp add: unsubscribe_table)
  have "calls_of_line (line_of h p) (history h as ?s) = calls_of_line (line_of h p) ?s"
    using ok assms(2) unbound assms(4) by (rule history_keeps_unbound)
  then show ?thesis
    by (simp add: calls_of_line_def unsubscribe_calls)
qed

theorem no_callback_after_unsubscribe_witness:
  "table_ok PA3_subscribed \<and> line_of example_hpp PA3 < N_EXTI \<and>
   port (subscriptions PA3_subscribed ! line_of example_hpp PA3) = this_port PA3 \<and>
   \<not> claims_line example_hpp (line_of example_hpp PA3) (Event 3) \<and>
   \<not> claims_line example_hpp (line_of example_hpp PA3) (Interrupt EXTI3_IRQn) \<and>
   calls_of_line (line_of example_hpp PA3)
       (history example_hpp two_events_on_3 (unsubscribe example_hpp PA3 PA3_subscribed))
     = calls_of_line (line_of example_hpp PA3) PA3_subscribed \<and>
   calls_of_line (line_of example_hpp PA3) PA3_subscribed = [] \<and>
   calls_of_line (line_of example_hpp PA3) (history example_hpp two_events_on_3 PA3_subscribed)
     = [(3, 0x08001000, 0x20000100), (3, 0x08001000, 0x20000100)]"
proof -
  have ok: "table_ok PA3_subscribed"
    by (simp add: model_defs example_defs)
  have valid: "line_of example_hpp PA3 < N_EXTI"
    by (simp add: model_defs example_defs)
  have own: "port (subscriptions PA3_subscribed ! line_of example_hpp PA3) = this_port PA3"
    by (simp add: model_defs example_defs)
  have quiet: "\<forall>a \<in> set two_events_on_3. \<not> claims_line example_hpp (line_of example_hpp PA3) a"
    by (simp add: two_events_on_3_def)
  have before: "calls_of_line (line_of example_hpp PA3) PA3_subscribed = []"
    by (simp add: calls_of_line_def model_defs example_defs)
  have subscribed: "calls_of_line (line_of example_hpp PA3)
      (history example_hpp two_events_on_3 PA3_subscribed)
     = [(3, 0x08001000, 0x20000100), (3, 0x08001000, 0x20000100)]"
    by (simp add: calls_of_line_def history_def EXTI3_IRQHandler_def model_defs example_defs)
  show ?thesis
    using no_callback_after_unsubscribe [OF ok valid own quiet] ok valid own before subscribed
    by simp
qed

section \<open>The order of the stores in \<open>subscribe\<close>\<close>









text \<open>
  The table at start-up has only free slots without callback, and calls by pins with a
  port, events and interrupts keep it so: \<open>subscribe\<close> stores a callback only in the slot
  it has claimed, and \<open>unsubscribe\<close> clears the callback before it frees the slot.
\<close>

lemma startup_clean: "free_slots_clean startup"
  by (simp add: free_slots_clean_def startup_def)

lemma perform_keeps_clean:
  assumes "free_slots_clean s" and "has_port a"
  shows "free_slots_clean (perform h a s)"
proof (cases a)
  case (Subscribe q r f cb c)
  with assms show ?thesis
    by (auto simp add: free_slots_clean_def subscribe_table
        dest!: set_update_subset_insert [THEN subsetD])
next
  case (Unsubscribe q)
  with assms show ?thesis
    by (auto simp add: free_slots_clean_def unsubscribe_table
        dest!: set_update_subset_insert [THEN subsetD])
next
  case (Event k)
  with assms show ?thesis
    by (simp add: free_slots_clean_def hardware_event_def)
next
  case (Interrupt irq)
  with assms show ?thesis
    by (simp add: free_slots_clean_def IRQHandler_subscriptions)
qed

lemma history_keeps_clean:
  "free_slots_clean s \<Longrightarrow> \<forall>a \<in> set as. has_port a \<Longrightarrow> free_slots_clean (history h as s)"
  unfolding history_def
  by (induction as arbitrary: s) (simp_all add: perform_keeps_clean)

lemma clean_free_slot:
  "free_slots_clean s \<Longrightarrow> n < length (subscriptions s) \<Longrightarrow>
   port (subscriptions s ! n) = nullptr \<Longrightarrow> callback (subscriptions s ! n) = nullptr"
  by (simp add: free_slots_clean_def)





end
